theory Spec2Isabelle
  imports Main "HOL-Library.Sublist"
begin

section \<open>JavaScript values used by the plugin\<close>

text \<open>
  Line, column and sibling-index numbers are JavaScript numbers that the plugin only ever
  tests for truthiness and prints inside template literals. They are modelled as integers;
  an absent optional argument is \<open>None\<close>.
\<close>

fun show_nat :: "nat \<Rightarrow> string" where
  "show_nat n =
     (if n < 10 then [''0123456789'' ! n]
      else show_nat (n div 10) @ [''0123456789'' ! (n mod 10)])"

declare show_nat.simps [simp del]

definition show_int :: "int \<Rightarrow> string" where
  "show_int i = (if i < 0 then CHR ''-'' # show_nat (nat (- i)) else show_nat (nat i))"

text \<open>A number inside a template literal; \<open>undefined\<close> prints as the word itself.\<close>

definition template_num :: "int option \<Rightarrow> string" where
  "template_num v = (case v of None \<Rightarrow> ''undefined'' | Some i \<Rightarrow> show_int i)"

text \<open>Truthiness of an optional number: \<open>undefined\<close> and \<open>0\<close> are falsy.\<close>

definition truthy_num :: "int option \<Rightarrow> bool" where
  "truthy_num v = (case v of None \<Rightarrow> False | Some i \<Rightarrow> i \<noteq> 0)"

text \<open>Truthiness of an optional string: \<open>undefined\<close>, \<open>null\<close> and \<open>''\<close> are falsy.\<close>

definition truthy_str :: "string option \<Rightarrow> bool" where
  "truthy_str v = (case v of None \<Rightarrow> False | Some s \<Rightarrow> s \<noteq> [])"

text \<open>\<open>a || b\<close> on optional strings.\<close>

definition or_str :: "string option \<Rightarrow> string option \<Rightarrow> string option" where
  "or_str a b = (if truthy_str a then a else b)"

text \<open>\<open>String.prototype.includes\<close>: the needle occurs as a contiguous substring.\<close>

fun str_includes :: "string \<Rightarrow> string \<Rightarrow> bool" where
  "str_includes [] needle = (needle = [])"
| "str_includes (c # cs) needle = (prefix needle (c # cs) \<or> str_includes cs needle)"


section \<open>source-navigation.ts: the editor registry\<close>

record editor_config =
  editor_name :: string
  command :: string
  args :: "string \<Rightarrow> int option \<Rightarrow> int option \<Rightarrow> string list"

text \<open>
  The expression
  \<^verbatim>\<open>line && column ? `${file}:${line}:${column}` : line ? `${file}:${line}` : file\<close>
  shared by the builders of code, code-insiders, sublime and atom.
\<close>

definition location_line_column :: "string \<Rightarrow> int option \<Rightarrow> int option \<Rightarrow> string" where
  "location_line_column file line column =
     (if truthy_num line \<and> truthy_num column
        then file @ '':'' @ template_num line @ '':'' @ template_num column
      else if truthy_num line then file @ '':'' @ template_num line
      else file)"

text \<open>The expression \<^verbatim>\<open>line ? `${file}:${line}` : file\<close> of webstorm and idea.\<close>

definition location_line :: "string \<Rightarrow> int option \<Rightarrow> string" where
  "location_line file line =
     (if truthy_num line then file @ '':'' @ template_num line else file)"

definition code_args :: "string \<Rightarrow> int option \<Rightarrow> int option \<Rightarrow> string list" where
  "code_args file line column = [''--goto'', location_line_column file line column]"

definition code_insiders_args :: "string \<Rightarrow> int option \<Rightarrow> int option \<Rightarrow> string list" where
  "code_insiders_args file line column = [''--goto'', location_line_column file line column]"

definition webstorm_args :: "string \<Rightarrow> int option \<Rightarrow> int option \<Rightarrow> string list" where
  "webstorm_args file line column = [''--line'', location_line file line]"

definition idea_args :: "string \<Rightarrow> int option \<Rightarrow> int option \<Rightarrow> string list" where
  "idea_args file line column = [''--line'', location_line file line]"

definition sublime_args :: "string \<Rightarrow> int option \<Rightarrow> int option \<Rightarrow> string list" where
  "sublime_args file line column = [location_line_column file line column]"

definition atom_args :: "string \<Rightarrow> int option \<Rightarrow> int option \<Rightarrow> string list" where
  "atom_args file line column = [location_line_column file line column]"

definition vim_args :: "string \<Rightarrow> int option \<Rightarrow> int option \<Rightarrow> string list" where
  "vim_args file line column =
     (if truthy_num line then [''+'' @ template_num line, file] else [file])"

definition emacs_args :: "string \<Rightarrow> int option \<Rightarrow> int option \<Rightarrow> string list" where
  "emacs_args file line column =
     (if truthy_num line then [''+'' @ template_num line, file] else [file])"

text \<open>The own properties of the \<open>SUPPORTED_EDITORS\<close> object literal, in source order.\<close>

definition SUPPORTED_EDITORS :: "(string \<times> editor_config) list" where
  "SUPPORTED_EDITORS =
     [(''code'', \<lparr>editor_name = ''Visual Studio Code'', command = ''code'', args = code_args\<rparr>),
      (''code-insiders'',
         \<lparr>editor_name = ''Visual Studio Code Insiders'', command = ''code-insiders'',
          args = code_insiders_args\<rparr>),
      (''webstorm'', \<lparr>editor_name = ''WebStorm'', command = ''webstorm'', args = webstorm_args\<rparr>),
      (''idea'', \<lparr>editor_name = ''IntelliJ IDEA'', command = ''idea'', args = idea_args\<rparr>),
      (''sublime'', \<lparr>editor_name = ''Sublime Text'', command = ''subl'', args = sublime_args\<rparr>),
      (''atom'', \<lparr>editor_name = ''Atom'', command = ''atom'', args = atom_args\<rparr>),
      (''vim'', \<lparr>editor_name = ''Vim'', command = ''vim'', args = vim_args\<rparr>),
      (''emacs'', \<lparr>editor_name = ''Emacs'', command = ''emacs'', args = emacs_args\<rparr>)]"

text \<open>
  \<open>SUPPORTED_EDITORS[editor]\<close> is a property read on a plain object, so besides the eight
  own keys it also finds the members every object inherits from \<open>Object.prototype\<close>.
  Those are truthy values without an \<open>args\<close> method.
\<close>

definition object_prototype_keys :: "string list" where
  "object_prototype_keys =
     [''constructor'', ''__proto__'', ''hasOwnProperty'', ''isPrototypeOf'',
      ''propertyIsEnumerable'', ''toLocaleString'', ''toString'', ''valueOf'',
      ''__defineGetter__'', ''__defineSetter__'', ''__lookupGetter__'', ''__lookupSetter__'']"

datatype registry_entry = Profile editor_config | Inherited

definition lookup_editor :: "string \<Rightarrow> registry_entry option" where
  "lookup_editor editor =
     (case map_of SUPPORTED_EDITORS editor of
        Some cfg \<Rightarrow> Some (Profile cfg)
      | None \<Rightarrow> if editor \<in> set object_prototype_keys then Some Inherited else None)"


section \<open>source-navigation.ts: launching an editor\<close>

text \<open>
  The Node.js services the module calls. \<open>path.join\<close> and \<open>path.resolve\<close> are library
  functions of the platform and stay parameters. \<open>spawn\<close> either throws (\<open>None\<close>) or
  hands back a child process, whose later exit code (if it ever exits) is all the model
  keeps of it.
\<close>

record child_process =
  exit_code :: "int option"

record node_env =
  existsSync :: "string \<Rightarrow> bool"
  join :: "string list \<Rightarrow> string"
  resolve :: "string list \<Rightarrow> string"
  spawn :: "string \<Rightarrow> string list \<Rightarrow> child_process option"

text \<open>One call of \<open>spawn(command, args, {stdio: 'ignore', detached: true})\<close>.\<close>

record spawn_call =
  spawn_command :: string
  spawn_args :: "string list"
  spawn_stdio :: string
  spawn_detached :: bool

text \<open>
  \<open>launchEditor\<close> returns the boolean the promise resolves to, together with the calls
  of \<open>spawn\<close> it made. For an inherited member of the registry object the call
  \<open>editorConfig.args(...)\<close> raises a TypeError inside the \<open>try\<close> block, before \<open>spawn\<close>.
\<close>

definition resolve_file :: "node_env \<Rightarrow> string option \<Rightarrow> string \<Rightarrow> string" where
  "resolve_file env projectRoot file =
     (case projectRoot of
        None \<Rightarrow> resolve env [file]
      | Some root \<Rightarrow> if root \<noteq> [] then resolve env [root, file] else resolve env [file])"

definition launchEditor ::
  "node_env \<Rightarrow> string \<Rightarrow> string \<Rightarrow> int option \<Rightarrow> int option \<Rightarrow> string option
     \<Rightarrow> bool \<times> spawn_call list" where
  "launchEditor env editor file line column projectRoot =
     (case lookup_editor editor of
        None \<Rightarrow> (False, [])
      | Some editorConfig \<Rightarrow>
          let resolvedFile = resolve_file env projectRoot file
          in if \<not> existsSync env resolvedFile then (False, [])
             else (case editorConfig of
                     Inherited \<Rightarrow> (False, [])
                   | Profile cfg \<Rightarrow>
                       let argv = args cfg resolvedFile line column;
                           call = \<lparr>spawn_command = command cfg, spawn_args = argv,
                                   spawn_stdio = ''ignore'', spawn_detached = True\<rparr>
                       in (case spawn env (command cfg) argv of
                             None \<Rightarrow> (False, [call])
                           | Some child \<Rightarrow> (True, [call]))))"

text \<open>The argument list the registry builds for a key, when the key names a profile.\<close>

definition editor_args ::
  "string \<Rightarrow> string \<Rightarrow> int option \<Rightarrow> int option \<Rightarrow> string list option" where
  "editor_args editor file line column =
     (case lookup_editor editor of
        Some (Profile cfg) \<Rightarrow> Some (args cfg file line column)
      | _ \<Rightarrow> None)"


section \<open>types.ts: snapshots\<close>

type_synonym addr = nat

datatype jsval = JUndefined | JNull | JBool bool | JNum int | JStr string | JRef addr

type_synonym props = "(string \<times> jsval) list"

record ComponentSource =
  fileName :: string
  lineNumber :: int
  columnNumber :: int

record SourceLocation =
  loc_file :: string
  loc_line :: "int option"
  loc_column :: "int option"

datatype hook_type =
  UseState | UseEffect | UseContext | UseReducer | UseMemo | UseCallback | UseRef | Custom

record Hook =
  hook_id :: nat
  hook_name :: string
  hook_type :: hook_type
  hook_value :: jsval
  hook_deps :: "jsval list option"

datatype component_type =
  Function | Class | Memo | ForwardRef | Fragment | Suspense | Provider | Consumer

text \<open>
  \<open>ReactComponent\<close>. The \<open>fiber\<close> field is a reference into the live graph; the \<open>parent\<close>
  back-reference is determined by the position in the tree and is not stored.
\<close>

datatype ReactComponent =
  ReactComponent
    (cid: string)
    (cname: string)
    (ctype: component_type)
    (cdisplayName: "string option")
    (cprops: props)
    (cstate: "addr option")
    (chooks: "Hook list")
    (cchildren: "ReactComponent list")
    (cfiber: "addr option")
    (csource: "ComponentSource option")


section \<open>source-navigation.ts: resolving a component to a file\<close>

definition getComponentSourceLocation :: "ReactComponent \<Rightarrow> SourceLocation option" where
  "getComponentSourceLocation component =
     (case csource component of
        Some src \<Rightarrow>
          Some \<lparr>loc_file = fileName src, loc_line = Some (lineNumber src),
                loc_column = Some (columnNumber src)\<rparr>
      | None \<Rightarrow>
          if truthy_str (or_str (cdisplayName component) (Some (cname component))) then None
          else None)"

definition patterns :: "string \<Rightarrow> string list" where
  "patterns componentName =
     [componentName @ ''.tsx'',
      componentName @ ''.jsx'',
      componentName @ ''.ts'',
      componentName @ ''.js'',
      componentName @ ''/index.tsx'',
      componentName @ ''/index.jsx'',
      componentName @ ''/index.ts'',
      componentName @ ''/index.js'']"

text \<open>
  The two nested \<open>for\<close> loops. Each returns the path found, if any, and the paths it
  passed to \<open>existsSync\<close>, in call order.
\<close>

fun probe_patterns ::
  "node_env \<Rightarrow> string \<Rightarrow> string \<Rightarrow> string list \<Rightarrow> string option \<times> string list" where
  "probe_patterns env projectRoot srcDir [] = (None, [])"
| "probe_patterns env projectRoot srcDir (pattern # rest) =
     (let filePath = join env [projectRoot, srcDir, pattern]
      in if existsSync env filePath then (Some filePath, [filePath])
         else (case probe_patterns env projectRoot srcDir rest of
                 (found, probed) \<Rightarrow> (found, filePath # probed)))"

fun probe_dirs ::
  "node_env \<Rightarrow> string \<Rightarrow> string list \<Rightarrow> string list \<Rightarrow> string option \<times> string list" where
  "probe_dirs env projectRoot [] pats = (None, [])"
| "probe_dirs env projectRoot (srcDir # rest) pats =
     (case probe_patterns env projectRoot srcDir pats of
        (Some filePath, probed) \<Rightarrow> (Some filePath, probed)
      | (None, probed) \<Rightarrow>
          (case probe_dirs env projectRoot rest pats of
             (found, probed') \<Rightarrow> (found, probed @ probed')))"

definition default_srcDirs :: "string list" where
  "default_srcDirs = [''src'', ''app'', ''components'']"

text \<open>
  \<open>resolveComponentFile\<close>: the result and the list of paths probed on the file system.
  The optional third argument defaults to \<open>default_srcDirs\<close>.
\<close>

definition resolveComponentFile ::
  "node_env \<Rightarrow> ReactComponent \<Rightarrow> string \<Rightarrow> string list option
     \<Rightarrow> string option \<times> string list" where
  "resolveComponentFile env component projectRoot srcDirsArg =
     (let srcDirs = (case srcDirsArg of None \<Rightarrow> default_srcDirs | Some ds \<Rightarrow> ds);
          location = getComponentSourceLocation component
      in if truthy_str (map_option loc_file location)
         then (map_option loc_file location, [])
         else (case or_str (cdisplayName component) (Some (cname component)) of
                 None \<Rightarrow> (None, [])
               | Some componentName \<Rightarrow>
                   if componentName = [] then (None, [])
                   else probe_dirs env projectRoot srcDirs (patterns componentName)))"


section \<open>types.ts: the live fiber graph\<close>

text \<open>
  \<open>fiber.type\<close> has type \<open>any\<close>. The variants are the ones the detector tells apart:
  a falsy value, a string (a DOM tag), a function (with its \<open>name\<close>, optional
  \<open>displayName\<close>, whether \<open>prototype.isReactComponent\<close> is truthy, and the text of
  \<open>$$typeof.toString()\<close> when \<open>$$typeof\<close> is truthy), an object, or a symbol.
\<close>

record function_type =
  fn_name :: string
  fn_displayName :: "string option"
  fn_isReactComponent :: bool
  fn_typeof :: "string option"

record object_type =
  obj_name :: "string option"
  obj_displayName :: "string option"
  obj_typeof :: "string option"

datatype fiber_type =
  TNull | TString string | TFunction function_type | TObject object_type | TSymbol string

record FiberNode =
  ftype :: fiber_type
  key :: "string option"
  index :: int
  memoizedProps :: "props option"
  memoizedState :: "addr option"
  return :: "addr option"
  child :: "addr option"
  sibling :: "addr option"

text \<open>
  One node of the hook chain that \<open>fiber.memoizedState\<close> points to. \<open>has_queue\<close> is
  \<open>'queue' in node\<close>; \<open>deps\<close> is \<open>None\<close> when the node has no \<open>deps\<close> key, \<open>Some None\<close>
  when the key holds \<open>null\<close>, and \<open>Some (Some ds)\<close> when it holds an array.
\<close>

record hook_node =
  hn_memoizedState :: jsval
  has_queue :: bool
  deps :: "jsval list option option"
  "next" :: "addr option"

text \<open>
  The graph belongs to the host runtime and is reached by reference, so it is a store
  from addresses to objects, and links may form cycles or share nodes. An \<open>Unreadable\<close>
  cell is an object whose property reads throw (the runtime caught mid-commit).
\<close>

datatype 'a heap_cell = Readable 'a | Unreadable

record graph =
  fibers :: "addr \<Rightarrow> FiberNode heap_cell"
  hook_nodes :: "addr \<Rightarrow> hook_node heap_cell"

text \<open>
  What a call does: it returns a value, it throws, or it is still running when the fuel
  of the model is used up. Every loop iteration and every recursive call costs one unit.
  A call that is \<open>OutOfFuel\<close> for every amount of fuel never returns; the model gives the
  engine an unbounded heap and call stack, so it does not show how such a run is cut short.
\<close>

datatype 'a outcome = Returns 'a | Throws | OutOfFuel


section \<open>react-detector.ts\<close>

record renderer =
  getCurrentFiber :: "addr option option"

text \<open>
  \<open>window\<close>: \<open>None\<close> when \<open>typeof window === 'undefined'\<close>; otherwise the value of
  \<open>window.__REACT_DEVTOOLS_GLOBAL_HOOK__\<close>, of which only the \<open>renderers\<close> map matters
  (its values in insertion order, \<open>None\<close> when the property is missing).
\<close>

record ReactDevToolsHook =
  renderers :: "renderer list option"

type_synonym window = "ReactDevToolsHook option option"

definition getReactDevToolsHook :: "window \<Rightarrow> ReactDevToolsHook option" where
  "getReactDevToolsHook w = (case w of None \<Rightarrow> None | Some h \<Rightarrow> h)"

definition getReactRenderer :: "window \<Rightarrow> renderer option" where
  "getReactRenderer w =
     (case getReactDevToolsHook w of
        None \<Rightarrow> None
      | Some hook \<Rightarrow>
          (case renderers hook of
             None \<Rightarrow> None
           | Some rs \<Rightarrow> (case rs of [] \<Rightarrow> None | r # _ \<Rightarrow> Some r)))"

definition type_name :: "fiber_type \<Rightarrow> string option" where
  "type_name t =
     (case t of TFunction f \<Rightarrow> Some (fn_name f) | TObject ob \<Rightarrow> obj_name ob | _ \<Rightarrow> None)"

definition type_displayName :: "fiber_type \<Rightarrow> string option" where
  "type_displayName t =
     (case t of TFunction f \<Rightarrow> fn_displayName f | TObject ob \<Rightarrow> obj_displayName ob
      | _ \<Rightarrow> None)"

text \<open>
  \<open>generateComponentId\<close>; \<open>random\<close> is the text that
  \<open>Math.random().toString(36).substring(2, 11)\<close> evaluates to at this call.
\<close>

definition generateComponentId :: "FiberNode \<Rightarrow> string \<Rightarrow> string" where
  "generateComponentId fiber random =
     (let tname = (case or_str (or_str (type_name (ftype fiber)) (type_displayName (ftype fiber)))
                          (Some ''Unknown'') of Some s \<Rightarrow> s | None \<Rightarrow> ''Unknown'');
          k = (case or_str (key fiber) (Some []) of Some s \<Rightarrow> s | None \<Rightarrow> [])
      in tname @ ''_'' @ k @ ''_'' @ show_int (index fiber) @ ''_'' @ random)"

definition getComponentName :: "FiberNode \<Rightarrow> string" where
  "getComponentName fiber =
     (case ftype fiber of
        TNull \<Rightarrow> ''Unknown''
      | TString s \<Rightarrow> if s = [] then ''Unknown'' else s
      | TFunction f \<Rightarrow>
          (case or_str (or_str (fn_displayName f) (Some (fn_name f))) (Some ''Anonymous'') of
             Some s \<Rightarrow> s | None \<Rightarrow> ''Anonymous'')
      | TObject ob \<Rightarrow>
          if obj_typeof ob \<noteq> None
          then (case or_str (obj_displayName ob) (Some ''Component'') of
                  Some s \<Rightarrow> s | None \<Rightarrow> ''Component'')
          else ''Unknown''
      | TSymbol s \<Rightarrow> ''Unknown'')"

definition getComponentType :: "FiberNode \<Rightarrow> component_type" where
  "getComponentType fiber =
     (case ftype fiber of
        TNull \<Rightarrow> Function
      | TString s \<Rightarrow> Function
      | TFunction f \<Rightarrow>
          if fn_isReactComponent f then Class
          else if (case fn_typeof f of None \<Rightarrow> False | Some ts \<Rightarrow> str_includes ts ''memo'')
            then Memo
          else if (case fn_typeof f of None \<Rightarrow> False
                   | Some ts \<Rightarrow> str_includes ts ''forward_ref'')
            then ForwardRef
          else Function
      | TObject ob \<Rightarrow> Function
      | TSymbol s \<Rightarrow> Function)"

definition getHookName :: "hook_node \<Rightarrow> nat \<Rightarrow> string" where
  "getHookName hookNode i = ''Hook '' @ show_nat i"

definition getHookType :: "hook_node \<Rightarrow> hook_type" where
  "getHookType node =
     (if has_queue node then UseState
      else if deps node \<noteq> None then UseEffect
      else Custom)"

text \<open>
  The \<open>while (hookNode)\<close> loop of \<open>extractHooks\<close>, inside its \<open>try\<close> block: a read that
  throws ends the loop with the hooks pushed so far.
\<close>

fun hook_loop ::
  "nat \<Rightarrow> (addr \<Rightarrow> hook_node heap_cell) \<Rightarrow> addr option \<Rightarrow> nat \<Rightarrow> Hook list
     \<Rightarrow> Hook list outcome" where
  "hook_loop 0 hs hookNode hookIndex hooks = OutOfFuel"
| "hook_loop (Suc fuel) hs hookNode hookIndex hooks =
     (case hookNode of
        None \<Rightarrow> Returns hooks
      | Some a \<Rightarrow>
          (case hs a of
             Unreadable \<Rightarrow> Returns hooks
           | Readable node \<Rightarrow>
               let hook = \<lparr>hook_id = hookIndex,
                           hook_name = getHookName node hookIndex,
                           hook_type = getHookType node,
                           hook_value = hn_memoizedState node,
                           hook_deps = (case deps node of Some (Some ds) \<Rightarrow> Some ds
                                        | _ \<Rightarrow> None)\<rparr>
               in hook_loop fuel hs (next node) (hookIndex + 1) (hooks @ [hook])))"

definition extractHooks :: "nat \<Rightarrow> graph \<Rightarrow> FiberNode \<Rightarrow> Hook list outcome" where
  "extractHooks fuel g fiber =
     (case memoizedState fiber of
        None \<Rightarrow> Returns []
      | Some a \<Rightarrow> hook_loop fuel (hook_nodes g) (Some a) 0 [])"

definition getComponentSource :: "FiberNode \<Rightarrow> ComponentSource option" where
  "getComponentSource fiber = None"

definition skipTypes :: "string list" where
  "skipTypes = [''react.strict_mode'', ''react.profiler'', ''react.suspense'', ''react.fragment'']"

definition shouldSkipFiber :: "FiberNode \<Rightarrow> bool" where
  "shouldSkipFiber fiber =
     (case ftype fiber of
        TObject ob \<Rightarrow>
          (case obj_typeof ob of
             None \<Rightarrow> False
           | Some typeString \<Rightarrow>
               list_ex (\<lambda>skipType. str_includes typeString skipType) skipTypes)
      | _ \<Rightarrow> False)"

text \<open>
  \<open>fiberToComponent\<close> and its \<open>while (child)\<close> loop. \<open>rnd k\<close> is the text produced by the
  \<open>k\<close>-th call of \<open>Math.random\<close> in this walk, and the walk threads the number of calls
  made so far. The \<open>depth\<close> argument is passed along as in the source, which never
  reads it. The object literal is evaluated field by field: the id first, the hooks
  next, and the children after the component has been built.
\<close>

fun fiberToComponent ::
  "nat \<Rightarrow> (nat \<Rightarrow> string) \<Rightarrow> graph \<Rightarrow> addr option \<Rightarrow> nat \<Rightarrow> nat
     \<Rightarrow> (ReactComponent option \<times> nat) outcome"
and children_loop ::
  "nat \<Rightarrow> (nat \<Rightarrow> string) \<Rightarrow> graph \<Rightarrow> addr option \<Rightarrow> nat \<Rightarrow> nat \<Rightarrow> ReactComponent list
     \<Rightarrow> (ReactComponent list \<times> nat) outcome" where
  "fiberToComponent 0 rnd g fiber depth calls = OutOfFuel"
| "fiberToComponent (Suc fuel) rnd g fiber depth calls =
     (case fiber of
        None \<Rightarrow> Returns (None, calls)
      | Some a \<Rightarrow>
          (case fibers g a of
             Unreadable \<Rightarrow> Throws
           | Readable f \<Rightarrow>
               if shouldSkipFiber f then Returns (None, calls)
               else
                 (case extractHooks fuel g f of
                    OutOfFuel \<Rightarrow> OutOfFuel
                  | Throws \<Rightarrow> Throws
                  | Returns hooks \<Rightarrow>
                      (case children_loop fuel rnd g (child f) depth (calls + 1) [] of
                         OutOfFuel \<Rightarrow> OutOfFuel
                       | Throws \<Rightarrow> Throws
                       | Returns (cs, calls') \<Rightarrow>
                           Returns
                             (Some (ReactComponent
                                      (generateComponentId f (rnd calls))
                                      (getComponentName f)
                                      (getComponentType f)
                                      None
                                      (case memoizedProps f of None \<Rightarrow> [] | Some ps \<Rightarrow> ps)
                                      (memoizedState f)
                                      hooks
                                      cs
                                      (Some a)
                                      (getComponentSource f)),
                              calls')))))"
| "children_loop 0 rnd g ch depth calls acc = OutOfFuel"
| "children_loop (Suc fuel) rnd g ch depth calls acc =
     (case ch of
        None \<Rightarrow> Returns (acc, calls)
      | Some a \<Rightarrow>
          (case fiberToComponent fuel rnd g (Some a) (depth + 1) calls of
             OutOfFuel \<Rightarrow> OutOfFuel
           | Throws \<Rightarrow> Throws
           | Returns (childComponent, calls') \<Rightarrow>
               (case fibers g a of
                  Unreadable \<Rightarrow> Throws
                | Readable f \<Rightarrow>
                    children_loop fuel rnd g (sibling f) depth calls'
                      (case childComponent of None \<Rightarrow> acc | Some c \<Rightarrow> acc @ [c]))))"

text \<open>The loop \<open>while (current.return) current = current.return\<close>.\<close>

fun find_root :: "nat \<Rightarrow> graph \<Rightarrow> addr \<Rightarrow> addr outcome" where
  "find_root 0 g current = OutOfFuel"
| "find_root (Suc fuel) g current =
     (case fibers g current of
        Unreadable \<Rightarrow> Throws
      | Readable f \<Rightarrow>
          (case return f of None \<Rightarrow> Returns current | Some parent \<Rightarrow> find_root fuel g parent))"

text \<open>
  \<open>getComponentTree\<close>: everything after the renderer check runs inside one \<open>try\<close> block
  whose \<open>catch\<close> returns the empty array.
\<close>

definition getComponentTree ::
  "nat \<Rightarrow> (nat \<Rightarrow> string) \<Rightarrow> graph \<Rightarrow> window \<Rightarrow> ReactComponent list outcome" where
  "getComponentTree fuel rnd g w =
     (case getReactRenderer w of
        None \<Rightarrow> Returns []
      | Some r \<Rightarrow>
          (case getCurrentFiber r of
             None \<Rightarrow> Returns []
           | Some None \<Rightarrow> Returns []
           | Some (Some rootFiber) \<Rightarrow>
               (case find_root fuel g rootFiber of
                  OutOfFuel \<Rightarrow> OutOfFuel
                | Throws \<Rightarrow> Returns []
                | Returns current \<Rightarrow>
                    (case fibers g current of
                       Unreadable \<Rightarrow> Returns []
                     | Readable f \<Rightarrow>
                         (case child f of
                            None \<Rightarrow> Returns []
                          | Some c \<Rightarrow>
                              (case fiberToComponent fuel rnd g (Some c) 0 0 of
                                 OutOfFuel \<Rightarrow> OutOfFuel
                               | Throws \<Rightarrow> Returns []
                               | Returns (None, calls) \<Rightarrow> Returns []
                               | Returns (Some component, calls) \<Rightarrow> Returns [component]))))))"

text \<open>A snapshot with every generated id blanked, to compare two walks.\<close>

fun forget_ids :: "ReactComponent \<Rightarrow> ReactComponent" where
  "forget_ids (ReactComponent i n t dn ps st hs cs fb src) =
     ReactComponent [] n t dn ps st hs (map forget_ids cs) fb src"

fun map_outcome :: "('a \<Rightarrow> 'b) \<Rightarrow> 'a outcome \<Rightarrow> 'b outcome" where
  "map_outcome f (Returns x) = Returns (f x)"
| "map_outcome f Throws = Throws"
| "map_outcome f OutOfFuel = OutOfFuel"


section \<open>Specification-side definitions and sample inputs\<close>

text \<open>
  The candidate paths of the heuristic search in the order the specification gives them:
  directory by directory, and inside one directory pattern by pattern.
\<close>

definition candidate_paths ::
  "node_env \<Rightarrow> string \<Rightarrow> string list \<Rightarrow> string \<Rightarrow> string list" where
  "candidate_paths env projectRoot srcDirs componentName =
     concat (map (\<lambda>srcDir. map (\<lambda>pattern. join env [projectRoot, srcDir, pattern])
                                (patterns componentName)) srcDirs)"

text \<open>
  The paths the search has probed when it stops: every candidate up to and including the
  first one that exists, or all of them when none does.
\<close>

definition probed_upto :: "(string \<Rightarrow> bool) \<Rightarrow> string list \<Rightarrow> string list" where
  "probed_upto ex cs = takeWhile (\<lambda>p. \<not> ex p) cs @ (case find ex cs of None \<Rightarrow> [] | Some p \<Rightarrow> [p])"

text \<open>
  A sample platform: \<open>path.join\<close> and \<open>path.resolve\<close> as they act on segments that need no
  normalisation (no \<open>.\<close>, \<open>..\<close> or repeated separators), with working directory \<open>/work\<close>;
  a file system holding the single file \<open>/proj/src/UserCard.tsx\<close>; and a \<open>spawn\<close> that
  succeeds with a child that later exits with status 1.
\<close>

definition slash_join :: "string list \<Rightarrow> string" where
  "slash_join segments = foldr (\<lambda>s acc. if acc = [] then s else s @ ''/'' @ acc) segments []"

definition slash_resolve :: "string \<Rightarrow> string list \<Rightarrow> string" where
  "slash_resolve cwd segments =
     foldl (\<lambda>acc s. case s of [] \<Rightarrow> acc
                     | c # cs \<Rightarrow> if c = CHR ''/'' then s else acc @ ''/'' @ s) cwd segments"

definition sample_env :: node_env where
  "sample_env =
     \<lparr>existsSync = (\<lambda>p. p = ''/proj/src/UserCard.tsx''),
      join = slash_join,
      resolve = slash_resolve ''/work'',
      spawn = (\<lambda>cmd argv. Some \<lparr>exit_code = Some 1\<rparr>)\<rparr>"


definition named_component :: "string \<Rightarrow> ComponentSource option \<Rightarrow> ReactComponent" where
  "named_component n src = ReactComponent ''id'' n Function None [] None [] [] None src"


text \<open>Components with source metadata: one whose file name is empty, one with a real file.\<close>

definition empty_source_component :: ReactComponent where
  "empty_source_component =
     named_component ''UserCard'' (Some \<lparr>fileName = [], lineNumber = 1, columnNumber = 1\<rparr>)"

definition card_source :: ComponentSource where
  "card_source = \<lparr>fileName = ''/abs/Card.tsx'', lineNumber = 12, columnNumber = 4\<rparr>"


subsection \<open>Sample graphs\<close>

text \<open>
  Building blocks: a function component type, an internal marker type whose \<open>$$typeof\<close>
  prints as the given text, a fiber without props, state or key, a source of random
  texts, and a \<open>window\<close> whose only renderer reports the given current fiber.
\<close>

definition component_fn :: "string \<Rightarrow> fiber_type" where
  "component_fn n =
     TFunction \<lparr>fn_name = n, fn_displayName = None, fn_isReactComponent = False,
                fn_typeof = None\<rparr>"

definition marker_type :: "string \<Rightarrow> fiber_type" where
  "marker_type tag = TObject \<lparr>obj_name = None, obj_displayName = None, obj_typeof = Some tag\<rparr>"

definition fiber_of :: "fiber_type \<Rightarrow> addr option \<Rightarrow> addr option \<Rightarrow> addr option \<Rightarrow> FiberNode" where
  "fiber_of t parent c s =
     \<lparr>ftype = t, key = None, index = 0, memoizedProps = None, memoizedState = None,
      return = parent, child = c, sibling = s\<rparr>"


definition sample_window :: "addr \<Rightarrow> window" where
  "sample_window current =
     Some (Some \<lparr>renderers = Some [\<lparr>getCurrentFiber = Some (Some current)\<rparr>]\<rparr>)"

definition no_hooks :: "addr \<Rightarrow> hook_node heap_cell" where
  "no_hooks a = Unreadable"

text \<open>
  A root container (10) whose child is a strict-mode wrapper (11) around \<open>App\<close> (12).
\<close>

definition strict_graph :: graph where
  "strict_graph =
     \<lparr>fibers = (\<lambda>a. Unreadable)
        (10 := Readable (fiber_of TNull None (Some 11) None),
         11 := Readable (fiber_of (marker_type ''Symbol(react.strict_mode)'') (Some 10) (Some 12) None),
         12 := Readable (fiber_of (component_fn ''App'') (Some 11) None None)),
      hook_nodes = no_hooks\<rparr>"

text \<open>
  A component whose hook chain is one node pointing to itself, and hook chains of \<open>n\<close>
  nodes in a row.
\<close>

definition looping_hook :: hook_node where
  "looping_hook = \<lparr>hn_memoizedState = JNum 0, has_queue = True, deps = None, next = Some 20\<rparr>"

definition counter_fiber :: FiberNode where
  "counter_fiber = (fiber_of (component_fn ''Counter'') None None None)\<lparr>memoizedState := Some 20\<rparr>"

definition hook_cycle_graph :: graph where
  "hook_cycle_graph =
     \<lparr>fibers = (\<lambda>a. Unreadable)(10 := Readable counter_fiber),
      hook_nodes = (\<lambda>a. Unreadable)(20 := Readable looping_hook)\<rparr>"

definition linear_hooks :: "nat \<Rightarrow> addr \<Rightarrow> hook_node heap_cell" where
  "linear_hooks n a =
     (if a < n
      then Readable \<lparr>hn_memoizedState = JNum (int a), has_queue = True, deps = None,
                     next = (if Suc a < n then Some (Suc a) else None)\<rparr>
      else Unreadable)"

text \<open>
  Graphs with a cycle through \<open>sibling\<close>, with a cycle through \<open>child\<close>, and with one
  node (14) that is the child of two others.
\<close>

definition sibling_cycle_graph :: graph where
  "sibling_cycle_graph =
     \<lparr>fibers = (\<lambda>a. Unreadable)
        (10 := Readable (fiber_of (component_fn ''App'') None (Some 12) None),
         12 := Readable (fiber_of (component_fn ''Item'') (Some 10) None (Some 12))),
      hook_nodes = no_hooks\<rparr>"

definition child_cycle_graph :: graph where
  "child_cycle_graph =
     \<lparr>fibers = (\<lambda>a. Unreadable)
        (10 := Readable (fiber_of (component_fn ''App'') None (Some 10) None)),
      hook_nodes = no_hooks\<rparr>"

definition shared_child_graph :: graph where
  "shared_child_graph =
     \<lparr>fibers = (\<lambda>a. Unreadable)
        (10 := Readable (fiber_of (component_fn ''App'') None (Some 12) None),
         12 := Readable (fiber_of (component_fn ''A'') (Some 10) (Some 14) (Some 13)),
         13 := Readable (fiber_of (component_fn ''B'') (Some 10) (Some 14) None),
         14 := Readable (fiber_of (component_fn ''Shared'') (Some 12) None None)),
      hook_nodes = no_hooks\<rparr>"

fun count_nodes :: "ReactComponent \<Rightarrow> nat" where
  "count_nodes (ReactComponent i n t dn ps st hs cs fb src) = Suc (sum_list (map count_nodes cs))"

text \<open>
  \<open>App\<close> (12) under the root container (10) with the children \<open>Counter\<close> (13) and an
  object that cannot be read (14); and the same graph where 14 is a bare fragment
  without children instead.
\<close>

definition unreadable_sibling_graph :: graph where
  "unreadable_sibling_graph =
     \<lparr>fibers = (\<lambda>a. Unreadable)
        (10 := Readable (fiber_of TNull None (Some 12) None),
         12 := Readable (fiber_of (component_fn ''App'') (Some 10) (Some 13) None),
         13 := Readable (fiber_of (component_fn ''Counter'') (Some 12) None (Some 14))),
      hook_nodes = no_hooks\<rparr>"

definition skipped_sibling_graph :: graph where
  "skipped_sibling_graph =
     unreadable_sibling_graph
       \<lparr>fibers := (fibers unreadable_sibling_graph)
          (14 := Readable (fiber_of (marker_type ''Symbol(react.fragment)'') (Some 12) None None))\<rparr>"


text \<open>What two walks are compared on: the snapshots with their ids blanked.\<close>

definition snapshot_of :: "ReactComponent option \<times> nat \<Rightarrow> ReactComponent option" where
  "snapshot_of r = map_option forget_ids (fst r)"

definition snapshots_of :: "ReactComponent list \<times> nat \<Rightarrow> ReactComponent list" where
  "snapshots_of r = map forget_ids (fst r)"


section \<open>Auxiliary facts\<close>

lemmas builder_defs =
  editor_args_def lookup_editor_def SUPPORTED_EDITORS_def object_prototype_keys_def
  code_args_def code_insiders_args_def webstorm_args_def idea_args_def sublime_args_def
  atom_args_def vim_args_def emacs_args_def location_line_column_def location_line_def
  truthy_num_def template_num_def

lemmas sample_env_defs =
  sample_env_def slash_join_def slash_resolve_def resolve_file_def

lemma show_int_10: "show_int 10 = ''10''"
  by (simp add: show_int_def show_nat.simps)

lemma show_int_3: "show_int 3 = ''3''"
  by (simp add: show_int_def show_nat.simps)

lemma map_of_lookup_editor:
  "map_of SUPPORTED_EDITORS editor = Some cfg \<Longrightarrow> lookup_editor editor = Some (Profile cfg)"
  by (simp add: lookup_editor_def)

lemma not_own_key_lookup:
  "editor \<notin> set (map fst SUPPORTED_EDITORS)
     \<Longrightarrow> lookup_editor editor = None \<or> lookup_editor editor = Some Inherited"
  by (simp add: lookup_editor_def map_of_eq_None_iff[symmetric])

subsection \<open>Decimal numerals never put \<open>:0\<close> into a location token\<close>

lemma str_includes_append2:
  "str_includes (xs @ ys) [a, b] =
     (str_includes xs [a, b] \<or> str_includes ys [a, b]
      \<or> (xs \<noteq> [] \<and> last xs = a \<and> (\<exists>zs. ys = b # zs)))"
proof (induction xs)
  case Nil
  then show ?case by simp
next
  case (Cons x xs)
  then show ?case
    by (cases xs; cases ys) auto
qed

lemma no_colon_no_includes: "CHR '':'' \<notin> set s \<Longrightarrow> \<not> str_includes s (CHR '':'' # t)"
  by (induction s) auto

lemma digit_nth_mem: "k < 10 \<Longrightarrow> ''0123456789'' ! k \<in> set ''0123456789''"
  by (rule nth_mem) simp

lemma show_nat_digits: "set (show_nat n) \<subseteq> set ''0123456789''"
proof (induction n rule: show_nat.induct)
  case (1 n)
  show ?case
  proof (cases "n < 10")
    case True
    then show ?thesis using digit_nth_mem[of n] by (subst show_nat.simps) simp
  next
    case False
    have "n mod 10 < 10" by simp
    then have "''0123456789'' ! (n mod 10) \<in> set ''0123456789''" by (rule digit_nth_mem)
    with False 1 show ?thesis by (subst show_nat.simps) simp
  qed
qed

lemma digit_nonzero: "0 < k \<Longrightarrow> k < 10 \<Longrightarrow> ''0123456789'' ! k \<noteq> CHR ''0''"
proof -
  assume "0 < k" "k < 10"
  then have "k \<in> {1,2,3,4,5,6,7,8,9}" by auto
  then show ?thesis by auto
qed

lemma show_nat_leading: "n \<noteq> 0 \<Longrightarrow> \<exists>c cs. show_nat n = c # cs \<and> c \<noteq> CHR ''0''"
proof (induction n rule: show_nat.induct)
  case (1 n)
  show ?case
  proof (cases "n < 10")
    case True
    with 1(2) have "''0123456789'' ! n \<noteq> CHR ''0''" by (intro digit_nonzero) auto
    with True show ?thesis by (subst show_nat.simps) simp
  next
    case False
    then have "n div 10 \<noteq> 0" by auto
    with 1(1) False obtain c cs where "show_nat (n div 10) = c # cs" "c \<noteq> CHR ''0''" by auto
    with False show ?thesis by (subst show_nat.simps) simp
  qed
qed

lemma show_int_no_colon: "CHR '':'' \<notin> set (show_int i)"
  using show_nat_digits by (auto simp: show_int_def)

lemma show_int_leading: "i \<noteq> 0 \<Longrightarrow> \<exists>c cs. show_int i = c # cs \<and> c \<noteq> CHR ''0''"
  using show_nat_leading[of "nat i"] by (auto simp: show_int_def)

lemma colon_num_no_colon_zero:
  assumes "i \<noteq> 0"
  shows "\<not> str_includes ('':'' @ show_int i) '':0''"
proof -
  obtain c cs where s: "show_int i = c # cs" "c \<noteq> CHR ''0''" using show_int_leading[OF assms] by auto
  have "\<not> str_includes (show_int i) '':0''" using show_int_no_colon by (rule no_colon_no_includes)
  with s show ?thesis by simp
qed

lemma location_no_colon_zero:
  assumes "\<not> str_includes f '':0''"
  shows "\<not> str_includes (location_line_column f l c) '':0''"
proof -
  have one: "\<not> str_includes (f @ '':'' @ show_int i) '':0''" if "i \<noteq> 0" for i
    using assms colon_num_no_colon_zero[OF that] by (simp add: str_includes_append2)
  have two: "\<not> str_includes (f @ '':'' @ show_int i @ '':'' @ show_int j) '':0''"
    if "i \<noteq> 0" "j \<noteq> 0" for i j
  proof -
    have "\<not> str_includes ((f @ '':'' @ show_int i) @ ('':'' @ show_int j)) '':0''"
      using one[OF that(1)] colon_num_no_colon_zero[OF that(2)]
      by (subst str_includes_append2) simp
    then show ?thesis by simp
  qed
  show ?thesis
    using assms one two
    by (auto simp: location_line_column_def truthy_num_def template_num_def split: option.splits)
qed


subsection \<open>The nested probe loops compute a first-match search\<close>

lemma probe_patterns_find:
  "fst (probe_patterns env root d ps) = find (existsSync env) (map (\<lambda>p. join env [root, d, p]) ps)"
  by (induction ps) (auto simp: Let_def split: prod.splits)

lemma find_append: "find P (xs @ ys) = (case find P xs of Some x \<Rightarrow> Some x | None \<Rightarrow> find P ys)"
  by (induction xs) auto

lemma probe_dirs_find:
  "fst (probe_dirs env root ds ps)
     = find (existsSync env) (concat (map (\<lambda>d. map (\<lambda>p. join env [root, d, p]) ps) ds))"
proof (induction ds)
  case Nil
  then show ?case by simp
next
  case (Cons d ds)
  have "fst (probe_patterns env root d ps) = find (existsSync env) (map (\<lambda>p. join env [root, d, p]) ps)"
    by (rule probe_patterns_find)
  with Cons show ?case
    by (auto simp: find_append split: prod.splits option.splits)
qed

lemma probe_patterns_log:
  "snd (probe_patterns env root d ps)
     = probed_upto (existsSync env) (map (\<lambda>p. join env [root, d, p]) ps)"
  by (induction ps) (auto simp: Let_def probed_upto_def split: prod.splits)

lemma probed_upto_append:
  "probed_upto P (xs @ ys)
   = (case find P xs of Some p \<Rightarrow> probed_upto P xs | None \<Rightarrow> xs @ probed_upto P ys)"
  by (induction xs) (auto simp: probed_upto_def split: option.splits)

lemma probe_dirs_log:
  "snd (probe_dirs env root ds ps)
     = probed_upto (existsSync env) (concat (map (\<lambda>d. map (\<lambda>p. join env [root, d, p]) ps) ds))"
proof (induction ds)
  case Nil
  then show ?case by (simp add: probed_upto_def)
next
  case (Cons d ds)
  obtain r l where pp: "probe_patterns env root d ps = (r, l)" by (cases "probe_patterns env root d ps")
  have r: "r = find (existsSync env) (map (\<lambda>p. join env [root, d, p]) ps)"
    using probe_patterns_find[of env root d ps] pp by simp
  have l: "l = probed_upto (existsSync env) (map (\<lambda>p. join env [root, d, p]) ps)"
    using probe_patterns_log[of env root d ps] pp by simp
  show ?case
  proof (cases r)
    case None
    then have "l = map (\<lambda>p. join env [root, d, p]) ps"
      using r l probed_upto_append[of "existsSync env" "map (\<lambda>p. join env [root, d, p]) ps" "[]"]
      by (simp add: probed_upto_def)
    then show ?thesis using pp r None Cons
      by (auto simp: probed_upto_append split: prod.splits option.splits)
  next
    case (Some a)
    then show ?thesis using pp r l
      by (simp add: probed_upto_append split: prod.splits option.splits)
  qed
qed

lemma probe_dirs_eq:
  "probe_dirs env root ds (patterns nm)
     = (find (existsSync env) (candidate_paths env root ds nm),
        probed_upto (existsSync env) (candidate_paths env root ds nm))"
  using probe_dirs_find[of env root ds "patterns nm"] probe_dirs_log[of env root ds "patterns nm"]
  by (simp add: candidate_paths_def prod_eq_iff)

lemma sample_candidates:
  "candidate_paths sample_env ''/proj'' [''src''] nm
     = map (\<lambda>p. ''/proj/src/'' @ p) (patterns nm)"
  by (simp add: candidate_paths_def sample_env_defs patterns_def)


subsection \<open>The walker on the sample graphs\<close>

lemmas walk_eval_defs =
  fiber_of_def component_fn_def marker_type_def shouldSkipFiber_def skipTypes_def
  extractHooks_def generateComponentId_def getComponentName_def getComponentType_def
  getComponentSource_def or_str_def truthy_str_def type_name_def type_displayName_def
  show_int_def show_nat.simps

lemma sample_window_renderer:
  "getReactRenderer (sample_window a) = Some \<lparr>getCurrentFiber = Some (Some a)\<rparr>"
  by (simp add: sample_window_def getReactRenderer_def getReactDevToolsHook_def)

lemma skipped_fiber_prunes:
  "fibers g a = Readable f \<Longrightarrow> shouldSkipFiber f
     \<Longrightarrow> fiberToComponent (Suc fuel) rnd g (Some a) depth calls = Returns (None, calls)"
  by simp

lemma strict_wrapper_skipped:
  "shouldSkipFiber (fiber_of (marker_type ''Symbol(react.strict_mode)'') p c s)"
  by (simp add: shouldSkipFiber_def fiber_of_def marker_type_def skipTypes_def)

lemma component_fn_not_skipped: "\<not> shouldSkipFiber (fiber_of (component_fn n) p c s)"
  by (simp add: shouldSkipFiber_def fiber_of_def component_fn_def)

lemma extractHooks_no_state: "extractHooks fuel g (fiber_of t p c s) = Returns []"
  by (simp add: extractHooks_def fiber_of_def)

lemma item_never_throws:
  "fiberToComponent fuel rnd sibling_cycle_graph (Some 12) depth calls \<noteq> Throws"
proof (cases fuel)
  case 0
  then show ?thesis by simp
next
  case (Suc m)
  have f: "fibers sibling_cycle_graph 12
             = Readable (fiber_of (component_fn ''Item'') (Some 10) None (Some 12))"
    by (simp add: sibling_cycle_graph_def)
  have c: "child (fiber_of (component_fn ''Item'') (Some 10) None (Some 12)) = None"
    by (simp add: fiber_of_def)
  show ?thesis
    by (cases m) (simp_all add: Suc f c component_fn_not_skipped extractHooks_no_state)
qed

lemma sibling_cycle_loop:
  "children_loop fuel rnd sibling_cycle_graph (Some 12) depth calls acc = OutOfFuel"
proof (induction fuel arbitrary: calls acc)
  case 0
  then show ?case by simp
next
  case (Suc fuel)
  have f: "fibers sibling_cycle_graph 12
             = Readable (fiber_of (component_fn ''Item'') (Some 10) None (Some 12))"
    by (simp add: sibling_cycle_graph_def)
  have s: "sibling (fiber_of (component_fn ''Item'') (Some 10) None (Some 12)) = Some 12"
    by (simp add: fiber_of_def)
  show ?case
    using item_never_throws[of fuel rnd "depth + 1" calls]
    by (cases "fiberToComponent fuel rnd sibling_cycle_graph (Some 12) (depth + 1) calls")
       (auto simp: f s Suc.IH simp del: fiberToComponent.simps)
qed

lemma child_cycle_both:
  "fiberToComponent fuel rnd child_cycle_graph (Some 10) depth calls = OutOfFuel
   \<and> children_loop fuel rnd child_cycle_graph (Some 10) depth calls acc = OutOfFuel"
proof (induction fuel arbitrary: depth calls acc)
  case 0
  then show ?case by simp
next
  case (Suc fuel)
  have f: "fibers child_cycle_graph 10
             = Readable (fiber_of (component_fn ''App'') None (Some 10) None)"
    by (simp add: child_cycle_graph_def)
  have c: "child (fiber_of (component_fn ''App'') None (Some 10) None) = Some 10"
    by (simp add: fiber_of_def)
  show ?case
    by (simp add: f c component_fn_not_skipped extractHooks_no_state Suc.IH)
qed

lemma hook_loop_cycle:
  "hook_loop fuel ((\<lambda>a. Unreadable)(20 := Readable looping_hook)) (Some 20) i acc = OutOfFuel"
  by (induction fuel arbitrary: i acc) (simp_all add: looping_hook_def)

text \<open>
  Where the hook loop returns, every record carries its position in the chain as its id.
\<close>

lemma hook_loop_ids:
  "hook_loop fuel hs p i acc = Returns hooks \<Longrightarrow> i = length acc
     \<Longrightarrow> map hook_id acc = [0 ..< length acc]
     \<Longrightarrow> map hook_id hooks = [0 ..< length hooks]"
proof (induction fuel arbitrary: p i acc)
  case 0
  then show ?case by simp
next
  case (Suc fuel)
  show ?case
  proof (cases p)
    case None
    with Suc.prems show ?thesis by simp
  next
    case (Some a)
    show ?thesis
    proof (cases "hs a")
      case Unreadable
      with Some Suc.prems show ?thesis by simp
    next
      case (Readable node)
      let ?h = "\<lparr>hook_id = i, hook_name = getHookName node i, hook_type = getHookType node,
                  hook_value = hn_memoizedState node,
                  hook_deps = (case deps node of Some (Some ds) \<Rightarrow> Some ds | _ \<Rightarrow> None)\<rparr>"
      from Suc.prems(1) Some Readable
      have run: "hook_loop fuel hs (next node) (i + 1) (acc @ [?h]) = Returns hooks"
        by (simp add: Let_def)
      have len: "i + 1 = length (acc @ [?h])" using Suc.prems(2) by simp
      have ids: "map hook_id (acc @ [?h]) = [0 ..< length (acc @ [?h])]"
        using Suc.prems(2,3) by simp
      from Suc.IH[OF run len ids] show ?thesis .
    qed
  qed
qed

text \<open>
  The loop has no cap on the number of records: a chain of 51 nodes yields 51 of them.
\<close>

lemma hook_loop_linear_step:
  "a < n \<Longrightarrow> \<exists>h. hook_loop (Suc m) (linear_hooks n) (Some a) i acc
           = hook_loop m (linear_hooks n) (if Suc a < n then Some (Suc a) else None) (i + 1)
               (acc @ [h])"
  by (cases "Suc a < n") (auto simp: linear_hooks_def Let_def)

lemma hook_loop_linear:
  "a < n \<Longrightarrow> \<exists>hooks. hook_loop (Suc (n - a)) (linear_hooks n) (Some a) i acc = Returns hooks
                \<and> length hooks = length acc + (n - a)"
proof (induction "n - a" arbitrary: a i acc)
  case 0
  then show ?case by simp
next
  case (Suc d)
  from hook_loop_linear_step[OF Suc.prems, of "n - a" i acc]
  obtain h where st: "hook_loop (Suc (n - a)) (linear_hooks n) (Some a) i acc
           = hook_loop (n - a) (linear_hooks n) (if Suc a < n then Some (Suc a) else None) (i + 1)
               (acc @ [h])" by blast
  show ?case
  proof (cases "Suc a < n")
    case True
    with Suc.hyps(2) have d: "d = n - Suc a" by simp
    from Suc.hyps(1)[OF d True, of "i + 1" "acc @ [h]"]
    obtain hooks where "hook_loop (Suc (n - Suc a)) (linear_hooks n) (Some (Suc a)) (i + 1) (acc @ [h])
        = Returns hooks" "length hooks = length (acc @ [h]) + (n - Suc a)" by blast
    moreover from True have "n - a = Suc (n - Suc a)" by simp
    ultimately show ?thesis using st True by simp
  next
    case False
    with Suc.prems have "n - a = Suc 0" by simp
    with st False show ?thesis by simp
  qed
qed

lemma fifty_one_hooks:
  "\<exists>hooks. extractHooks 52 \<lparr>fibers = fs, hook_nodes = linear_hooks 51\<rparr>
              ((fiber_of t p c s)\<lparr>memoizedState := Some 0\<rparr>) = Returns hooks
           \<and> length hooks = 51"
  using hook_loop_linear[of 0 51 0 "[]"]
  by (simp add: extractHooks_def fiber_of_def del: hook_loop.simps)

text \<open>
  A node reached along two paths is materialised once per path: four fibers give a
  snapshot of five nodes.
\<close>

lemma shared_child_duplicated:
  "\<exists>c k. fiberToComponent 8 rnd shared_child_graph (Some 10) 0 0 = Returns (Some c, k)
         \<and> count_nodes c = 5"
  by (simp add: shared_child_graph_def walk_eval_defs eval_nat_numeral)

subsection \<open>Two walks of one graph\<close>

lemma map_outcome_eq_cases:
  "map_outcome f x = map_outcome h y \<Longrightarrow>
     (x = OutOfFuel \<and> y = OutOfFuel) \<or> (x = Throws \<and> y = Throws)
     \<or> (\<exists>u v. x = Returns u \<and> y = Returns v \<and> f u = h v)"
  by (cases x; cases y) auto

lemma walk_deterministic:
  "map_outcome snapshot_of (fiberToComponent fuel rnd g fb d k)
     = map_outcome snapshot_of (fiberToComponent fuel rnd' g fb d' k')
   \<and> (map forget_ids acc = map forget_ids acc' \<longrightarrow>
        map_outcome snapshots_of (children_loop fuel rnd g ch d k acc)
          = map_outcome snapshots_of (children_loop fuel rnd' g ch d' k' acc'))"
proof (induction fuel arbitrary: fb d d' k k' acc acc' ch)
  case 0
  show ?case by simp
next
  case (Suc fuel)
  have conv: "map_outcome snapshot_of (fiberToComponent fuel rnd g x e j)
     = map_outcome snapshot_of (fiberToComponent fuel rnd' g x e' j')" for x e e' j j'
    using Suc.IH by blast
  have loop: "map_outcome snapshots_of (children_loop fuel rnd g x e j xs)
          = map_outcome snapshots_of (children_loop fuel rnd' g x e' j' ys)"
    if "map forget_ids xs = map forget_ids ys" for x e e' j j' xs ys
    using Suc.IH that by blast
  have first: "map_outcome snapshot_of (fiberToComponent (Suc fuel) rnd g fb d k)
     = map_outcome snapshot_of (fiberToComponent (Suc fuel) rnd' g fb d' k')"
  proof (cases fb)
    case None
    then show ?thesis by (simp add: snapshot_of_def)
  next
    case (Some a)
    show ?thesis
    proof (cases "fibers g a")
      case Unreadable
      with Some show ?thesis by simp
    next
      case (Readable f)
      show ?thesis
      proof (cases "shouldSkipFiber f")
        case True
        with Some Readable show ?thesis by (simp add: snapshot_of_def)
      next
        case False
        from loop[of "[]" "[]" "child f" d "k + 1" d' "k' + 1"]
        have "map_outcome snapshots_of (children_loop fuel rnd g (child f) d (k + 1) [])
                = map_outcome snapshots_of (children_loop fuel rnd' g (child f) d' (k' + 1) [])"
          by simp
        from map_outcome_eq_cases[OF this] Some Readable False show ?thesis
          by (cases "extractHooks fuel g f")
             (auto simp: snapshot_of_def snapshots_of_def simp del: children_loop.simps)
      qed
    qed
  qed
  have second: "map_outcome snapshots_of (children_loop (Suc fuel) rnd g ch d k acc)
          = map_outcome snapshots_of (children_loop (Suc fuel) rnd' g ch d' k' acc')"
    if eq: "map forget_ids acc = map forget_ids acc'"
  proof (cases ch)
    case None
    with eq show ?thesis by (simp add: snapshots_of_def)
  next
    case (Some a)
    from map_outcome_eq_cases[OF conv[of "Some a" "d + 1" k "d' + 1" k']]
    consider (fuel) "fiberToComponent fuel rnd g (Some a) (d + 1) k = OutOfFuel"
                    "fiberToComponent fuel rnd' g (Some a) (d' + 1) k' = OutOfFuel"
      | (throws) "fiberToComponent fuel rnd g (Some a) (d + 1) k = Throws"
                 "fiberToComponent fuel rnd' g (Some a) (d' + 1) k' = Throws"
      | (returns) u v where "fiberToComponent fuel rnd g (Some a) (d + 1) k = Returns u"
                 "fiberToComponent fuel rnd' g (Some a) (d' + 1) k' = Returns v"
                 "snapshot_of u = snapshot_of v"
      by blast
    then show ?thesis
    proof cases
      case fuel
      with Some show ?thesis by simp
    next
      case throws
      with Some show ?thesis by simp
    next
      case returns
      obtain c j where u: "u = (c, j)" by (cases u)
      obtain c' j' where v: "v = (c', j')" by (cases v)
      from returns(3) u v have cc: "map_option forget_ids c = map_option forget_ids c'"
        by (simp add: snapshot_of_def)
      show ?thesis
      proof (cases "fibers g a")
        case Unreadable
        with Some returns u v show ?thesis by simp
      next
        case (Readable f)
        have "map forget_ids (case c of None \<Rightarrow> acc | Some x \<Rightarrow> acc @ [x])
                = map forget_ids (case c' of None \<Rightarrow> acc' | Some x \<Rightarrow> acc' @ [x])"
          using cc eq by (cases c; cases c') auto
        from loop[OF this, of "sibling f" d j d' j'] Some returns(1,2) u v Readable
        show ?thesis by simp
      qed
    qed
  qed
  from first second show ?case by blast
qed

lemma ids_may_differ:
  "getComponentTree 8 (\<lambda>k. ''a'') skipped_sibling_graph (sample_window 13)
     \<noteq> getComponentTree 8 (\<lambda>k. ''b'') skipped_sibling_graph (sample_window 13)"
  by (simp add: getComponentTree_def sample_window_renderer unreadable_sibling_graph_def
        skipped_sibling_graph_def walk_eval_defs eval_nat_numeral)

section \<open>The editor registry and the launcher\<close>




text \<open>
  C10. In the four profiles that build a \<open>file:line:column\<close> token (code, code-insiders,
  sublime, atom) a line or a column equal to 0 has the effect of an absent one, because
  the builders test truthiness. So \<open>('main.ts', 10, 0)\<close> gives \<open>main.ts:10\<close> and
  \<open>('main.ts', 0, 3)\<close> gives \<open>main.ts\<close>, and the builder never adds \<open>:0\<close> to a file name
  that does not contain it.
\<close>

theorem zero_line_or_column_is_absent:
  "editor_args ''code'' f l (Some 0) = editor_args ''code'' f l None
   \<and> editor_args ''code'' f (Some 0) c = editor_args ''code'' f None c
   \<and> editor_args ''code-insiders'' f l (Some 0) = editor_args ''code-insiders'' f l None
   \<and> editor_args ''code-insiders'' f (Some 0) c = editor_args ''code-insiders'' f None c
   \<and> editor_args ''sublime'' f l (Some 0) = editor_args ''sublime'' f l None
   \<and> editor_args ''sublime'' f (Some 0) c = editor_args ''sublime'' f None c
   \<and> editor_args ''atom'' f l (Some 0) = editor_args ''atom'' f l None
   \<and> editor_args ''atom'' f (Some 0) c = editor_args ''atom'' f None c
   \<and> editor_args ''code'' ''main.ts'' (Some 10) (Some 0) = Some [''--goto'', ''main.ts:10'']
   \<and> editor_args ''code'' ''main.ts'' (Some 0) (Some 3) = Some [''--goto'', ''main.ts'']
   \<and> editor_args ''code'' f l c = Some [''--goto'', location_line_column f l c]
   \<and> editor_args ''code-insiders'' f l c = Some [''--goto'', location_line_column f l c]
   \<and> editor_args ''sublime'' f l c = Some [location_line_column f l c]
   \<and> editor_args ''atom'' f l c = Some [location_line_column f l c]
   \<and> (\<not> str_includes f '':0'' \<longrightarrow> \<not> str_includes (location_line_column f l c) '':0'')"
proof -
  have "\<not> str_includes f '':0'' \<longrightarrow> \<not> str_includes (location_line_column f l c) '':0''"
    using location_no_colon_zero by blast
  moreover have "editor_args ''code'' ''main.ts'' (Some 10) (Some 0) = Some [''--goto'', ''main.ts:10'']"
    by (simp add: builder_defs show_int_10)
  ultimately show ?thesis
    by (simp add: builder_defs)
qed

theorem zero_line_or_column_is_absent_witness:
  "\<not> str_includes ''main.ts'' '':0''
   \<and> \<not> str_includes (location_line_column ''main.ts'' (Some 10) (Some 0)) '':0''
   \<and> location_line_column ''main.ts'' (Some 10) (Some 0) = ''main.ts:10''"
proof -
  have h: "\<not> str_includes ''main.ts'' '':0''" by simp
  have v: "location_line_column ''main.ts'' (Some 10) (Some 0) = ''main.ts:10''"
    by (simp add: builder_defs show_int_10)
  from zero_line_or_column_is_absent [of "''main.ts''" "Some 10" "Some 0"] h
  have "\<not> str_includes (location_line_column ''main.ts'' (Some 10) (Some 0)) '':0''"
    by blast
  with h v show ?thesis by blast
qed

text \<open>
  C7. \<open>launchEditor\<close> resolves to \<open>false\<close> without calling \<open>spawn\<close> when the key is not one
  of the registry's own keys, and when the file, resolved against the project root, does
  not exist. When the key is registered and the file exists it calls \<open>spawn\<close> exactly once,
  detached, with the profile's command and the arguments built for the resolved file, and
  resolves to \<open>true\<close> exactly when that call did not throw, whatever the child's exit code.
\<close>

theorem launchEditor_reports:
  "(editor \<notin> set (map fst SUPPORTED_EDITORS)
      \<longrightarrow> launchEditor env editor f l c root = (False, []))
   \<and> (\<not> existsSync env (resolve_file env root f)
      \<longrightarrow> launchEditor env editor f l c root = (False, []))
   \<and> (map_of SUPPORTED_EDITORS editor = Some cfg
        \<and> existsSync env (resolve_file env root f)
      \<longrightarrow> launchEditor env editor f l c root =
            (spawn env (command cfg) (args cfg (resolve_file env root f) l c)
               \<noteq> None,
             [\<lparr>spawn_command = command cfg,
               spawn_args = args cfg (resolve_file env root f) l c,
               spawn_stdio = ''ignore'', spawn_detached = True\<rparr>]))"
proof (intro conjI impI)
  assume "editor \<notin> set (map fst SUPPORTED_EDITORS)"
  then have "lookup_editor editor = None \<or> lookup_editor editor = Some Inherited"
    by (rule not_own_key_lookup)
  then show "launchEditor env editor f l c root = (False, [])"
    by (auto simp: launchEditor_def Let_def)
next
  assume "\<not> existsSync env (resolve_file env root f)"
  then show "launchEditor env editor f l c root = (False, [])"
    by (simp add: launchEditor_def Let_def split: option.splits)
next
  assume a: "map_of SUPPORTED_EDITORS editor = Some cfg
        \<and> existsSync env (resolve_file env root f)"
  then have "lookup_editor editor = Some (Profile cfg)" by (simp add: map_of_lookup_editor)
  with a show "launchEditor env editor f l c root =
            (spawn env (command cfg) (args cfg (resolve_file env root f) l c)
               \<noteq> None,
             [\<lparr>spawn_command = command cfg,
               spawn_args = args cfg (resolve_file env root f) l c,
               spawn_stdio = ''ignore'', spawn_detached = True\<rparr>])"
    by (simp add: launchEditor_def Let_def split: option.splits)
qed


text \<open>
  An unknown key, a missing file, and a successful launch whose child later exits with
  status 1.
\<close>

theorem launchEditor_reports_witness:
  "''vscode'' \<notin> set (map fst SUPPORTED_EDITORS)
   \<and> launchEditor sample_env ''vscode'' ''src/UserCard.tsx'' (Some 10) (Some 3) (Some ''/proj'')
       = (False, [])
   \<and> \<not> existsSync sample_env (resolve_file sample_env (Some ''/proj'') ''src/Missing.tsx'')
   \<and> launchEditor sample_env ''code'' ''src/Missing.tsx'' (Some 10) (Some 3) (Some ''/proj'')
       = (False, [])
   \<and> map_of SUPPORTED_EDITORS ''code''
       = Some \<lparr>editor_name = ''Visual Studio Code'', command = ''code'', args = code_args\<rparr>
   \<and> existsSync sample_env (resolve_file sample_env (Some ''/proj'') ''src/UserCard.tsx'')
   \<and> launchEditor sample_env ''code'' ''src/UserCard.tsx'' (Some 10) (Some 3) (Some ''/proj'')
       = (True, [\<lparr>spawn_command = ''code'',
                  spawn_args = [''--goto'', ''/proj/src/UserCard.tsx:10:3''],
                  spawn_stdio = ''ignore'', spawn_detached = True\<rparr>])"
proof -
  have k: "''vscode'' \<notin> set (map fst SUPPORTED_EDITORS)"
    by (simp add: SUPPORTED_EDITORS_def)
  have m: "\<not> existsSync sample_env (resolve_file sample_env (Some ''/proj'') ''src/Missing.tsx'')"
    by (simp add: sample_env_defs)
  have c: "map_of SUPPORTED_EDITORS ''code''
       = Some \<lparr>editor_name = ''Visual Studio Code'', command = ''code'', args = code_args\<rparr>"
    by (simp add: SUPPORTED_EDITORS_def)
  have e: "existsSync sample_env (resolve_file sample_env (Some ''/proj'') ''src/UserCard.tsx'')"
    by (simp add: sample_env_defs)
  have r: "resolve_file sample_env (Some ''/proj'') ''src/UserCard.tsx'' = ''/proj/src/UserCard.tsx''"
    by (simp add: sample_env_defs)
  have s: "spawn sample_env cmd argv \<noteq> None" for cmd argv
    by (simp add: sample_env_def)
  have a: "code_args ''/proj/src/UserCard.tsx'' (Some 10) (Some 3)
             = [''--goto'', ''/proj/src/UserCard.tsx:10:3'']"
    by (simp add: builder_defs show_int_10 show_int_3)
  note t = launchEditor_reports
  from t [where editor = "''vscode''" and env = sample_env and f = "''src/UserCard.tsx''"
            and l = "Some 10" and c = "Some 3" and root = "Some ''/proj''"] k
  have 1: "launchEditor sample_env ''vscode'' ''src/UserCard.tsx'' (Some 10) (Some 3) (Some ''/proj'')
       = (False, [])" by blast
  from t [where editor = "''code''" and env = sample_env and f = "''src/Missing.tsx''"
            and l = "Some 10" and c = "Some 3" and root = "Some ''/proj''"] m
  have 2: "launchEditor sample_env ''code'' ''src/Missing.tsx'' (Some 10) (Some 3) (Some ''/proj'')
       = (False, [])" by blast
  from t [where editor = "''code''" and env = sample_env and f = "''src/UserCard.tsx''"
            and l = "Some 10" and c = "Some 3" and root = "Some ''/proj''"
            and cfg = "\<lparr>editor_name = ''Visual Studio Code'', command = ''code'',
                        args = code_args\<rparr>"] c e
  have 3: "launchEditor sample_env ''code'' ''src/UserCard.tsx'' (Some 10) (Some 3) (Some ''/proj'')
       = (True, [\<lparr>spawn_command = ''code'',
                  spawn_args = [''--goto'', ''/proj/src/UserCard.tsx:10:3''],
                  spawn_stdio = ''ignore'', spawn_detached = True\<rparr>])"
    by (simp add: r s a)
  from k m c e 1 2 3 show ?thesis by blast
qed



section \<open>Source resolution\<close>

text \<open>
  C8. For a component without source metadata whose name (\<open>displayName || name\<close>) is not
  empty, \<open>resolveComponentFile\<close> probes the eight fixed patterns in every search
  directory (by default \<open>src\<close>, \<open>app\<close>, \<open>components\<close>), all patterns of one directory before
  the next directory, stops at the first path that exists and returns it; it returns
  \<open>null\<close> when no candidate exists, and \<open>null\<close> without probing when the name is empty.
\<close>

theorem resolveComponentFile_heuristic:
  "csource component = None \<longrightarrow>
     patterns nm = [nm @ ''.tsx'', nm @ ''.jsx'', nm @ ''.ts'', nm @ ''.js'',
                    nm @ ''/index.tsx'', nm @ ''/index.jsx'', nm @ ''/index.ts'',
                    nm @ ''/index.js'']
   \<and> default_srcDirs = [''src'', ''app'', ''components'']
   \<and> (or_str (cdisplayName component) (Some (cname component)) = Some nm \<and> nm \<noteq> [] \<longrightarrow>
        resolveComponentFile env component root (Some dirs)
          = (find (existsSync env) (candidate_paths env root dirs nm),
             probed_upto (existsSync env) (candidate_paths env root dirs nm))
      \<and> resolveComponentFile env component root None
          = resolveComponentFile env component root (Some default_srcDirs)
      \<and> ((\<forall>p \<in> set (candidate_paths env root dirs nm). \<not> existsSync env p)
           \<longrightarrow> fst (resolveComponentFile env component root (Some dirs)) = None))
   \<and> (or_str (cdisplayName component) (Some (cname component)) = Some []
        \<longrightarrow> resolveComponentFile env component root dirsArg = (None, []))"
proof (intro impI conjI)
  assume s: "csource component = None"
  then have loc: "getComponentSourceLocation component = None"
    by (simp add: getComponentSourceLocation_def)
  show "patterns nm = [nm @ ''.tsx'', nm @ ''.jsx'', nm @ ''.ts'', nm @ ''.js'',
                    nm @ ''/index.tsx'', nm @ ''/index.jsx'', nm @ ''/index.ts'',
                    nm @ ''/index.js'']"
    by (simp add: patterns_def)
  show "default_srcDirs = [''src'', ''app'', ''components'']"
    by (simp add: default_srcDirs_def)
  show "resolveComponentFile env component root dirsArg = (None, [])"
    if "or_str (cdisplayName component) (Some (cname component)) = Some []"
    using that loc by (simp add: resolveComponentFile_def truthy_str_def)
  assume n: "or_str (cdisplayName component) (Some (cname component)) = Some nm \<and> nm \<noteq> []"
  show r: "resolveComponentFile env component root (Some dirs)
          = (find (existsSync env) (candidate_paths env root dirs nm),
             probed_upto (existsSync env) (candidate_paths env root dirs nm))"
    using n loc by (simp add: resolveComponentFile_def truthy_str_def probe_dirs_eq)
  show "resolveComponentFile env component root None
          = resolveComponentFile env component root (Some default_srcDirs)"
    by (simp add: resolveComponentFile_def)
  show "fst (resolveComponentFile env component root (Some dirs)) = None"
    if "\<forall>p \<in> set (candidate_paths env root dirs nm). \<not> existsSync env p"
    using that r by (simp add: find_None_iff)
qed


text \<open>
  With \<open>/proj/src/UserCard.tsx\<close> the only file: \<open>UserCard\<close> resolves to it, \<open>Other\<close> and the
  empty name resolve to nothing.
\<close>

theorem resolveComponentFile_heuristic_witness:
  "csource (named_component ''UserCard'' None) = None
   \<and> or_str (cdisplayName (named_component ''UserCard'' None))
             (Some (cname (named_component ''UserCard'' None))) = Some ''UserCard''
   \<and> ''UserCard'' \<noteq> []
   \<and> resolveComponentFile sample_env (named_component ''UserCard'' None) ''/proj'' (Some [''src''])
       = (Some ''/proj/src/UserCard.tsx'', [''/proj/src/UserCard.tsx''])
   \<and> list_all (\<lambda>p. \<not> existsSync sample_env p)
        (candidate_paths sample_env ''/proj'' [''src''] ''Other'')
   \<and> fst (resolveComponentFile sample_env (named_component ''Other'' None) ''/proj''
            (Some [''src''])) = None
   \<and> or_str (cdisplayName (named_component [] None)) (Some (cname (named_component [] None)))
       = Some []
   \<and> resolveComponentFile sample_env (named_component [] None) ''/proj'' (Some [''src''])
       = (None, [])"
proof -
  have s: "csource (named_component n None) = None" for n
    by (simp add: named_component_def)
  have n: "or_str (cdisplayName (named_component n None)) (Some (cname (named_component n None)))
             = Some n" for n
    by (simp add: named_component_def or_str_def truthy_str_def)
  have f: "find (existsSync sample_env) (candidate_paths sample_env ''/proj'' [''src''] ''UserCard'')
             = Some ''/proj/src/UserCard.tsx''"
    by (simp add: sample_candidates patterns_def) (simp add: sample_env_def)
  have u: "probed_upto (existsSync sample_env)
             (candidate_paths sample_env ''/proj'' [''src''] ''UserCard'')
             = [''/proj/src/UserCard.tsx'']"
    by (simp add: sample_candidates patterns_def probed_upto_def) (simp add: sample_env_def)
  have o: "\<forall>p \<in> set (candidate_paths sample_env ''/proj'' [''src''] ''Other'').
             \<not> existsSync sample_env p"
    by (simp add: sample_candidates patterns_def) (simp add: sample_env_def)
  note t = resolveComponentFile_heuristic
  from t [where component = "named_component ''UserCard'' None" and nm = "''UserCard''"
            and env = sample_env and root = "''/proj''" and dirs = "[''src'']"] s n f u
  have 1: "resolveComponentFile sample_env (named_component ''UserCard'' None) ''/proj''
             (Some [''src'']) = (Some ''/proj/src/UserCard.tsx'', [''/proj/src/UserCard.tsx''])"
    by simp
  from t [where component = "named_component ''Other'' None" and nm = "''Other''"
            and env = sample_env and root = "''/proj''" and dirs = "[''src'']"] s n o
  have 2: "fst (resolveComponentFile sample_env (named_component ''Other'' None) ''/proj''
            (Some [''src''])) = None"
    by blast
  from t [where component = "named_component [] None" and env = sample_env
            and root = "''/proj''" and dirsArg = "Some [''src'']"] s n
  have 3: "resolveComponentFile sample_env (named_component [] None) ''/proj'' (Some [''src''])
       = (None, [])"
    by simp
  from s n o 1 2 3 show ?thesis by (simp add: list_all_iff)
qed


text \<open>
  C5, as stated, fails where the metadata is present with an empty file name:
  \<open>resolveComponentFile\<close> tests \<open>location?.file\<close> for truthiness, falls through to the
  heuristic search, probes the file system, and its answer changes with the project root.
\<close>

theorem source_metadata_counterexample:
  "csource empty_source_component \<noteq> None
   \<and> resolveComponentFile sample_env empty_source_component ''/proj'' (Some [''src''])
       = (Some ''/proj/src/UserCard.tsx'', [''/proj/src/UserCard.tsx''])
   \<and> fst (resolveComponentFile sample_env empty_source_component ''/gone'' (Some [''src'']))
       = None
   \<and> snd (resolveComponentFile sample_env empty_source_component ''/gone'' (Some [''src'']))
       \<noteq> []"
  by (simp add: empty_source_component_def named_component_def resolveComponentFile_def
        getComponentSourceLocation_def truthy_str_def or_str_def patterns_def sample_env_defs
        Let_def)


text \<open>
  C5, amended. For a component with source metadata, \<open>getComponentSourceLocation\<close> returns
  the file name, line and column of the metadata as they are; and when the file name is
  not empty, \<open>resolveComponentFile\<close> returns that file name and probes nothing, whatever
  the platform, the project root and the search directories.
\<close>

theorem source_metadata_verbatim:
  "csource component = Some src \<longrightarrow>
     getComponentSourceLocation component
       = Some \<lparr>loc_file = fileName src, loc_line = Some (lineNumber src),
               loc_column = Some (columnNumber src)\<rparr>
   \<and> (fileName src \<noteq> [] \<longrightarrow>
        resolveComponentFile env component root dirsArg = (Some (fileName src), []))"
  by (simp add: getComponentSourceLocation_def resolveComponentFile_def truthy_str_def)

theorem source_metadata_verbatim_witness:
  "csource (named_component ''Card'' (Some card_source)) = Some card_source
   \<and> fileName card_source \<noteq> []
   \<and> getComponentSourceLocation (named_component ''Card'' (Some card_source))
       = Some \<lparr>loc_file = ''/abs/Card.tsx'', loc_line = Some 12, loc_column = Some 4\<rparr>
   \<and> resolveComponentFile sample_env (named_component ''Card'' (Some card_source)) ''/gone'' None
       = (Some ''/abs/Card.tsx'', [])"
proof -
  have s: "csource (named_component ''Card'' (Some card_source)) = Some card_source"
    by (simp add: named_component_def)
  have f: "fileName card_source \<noteq> []" by (simp add: card_source_def)
  from source_metadata_verbatim [where component = "named_component ''Card'' (Some card_source)"
         and src = card_source and env = sample_env and root = "''/gone''" and dirsArg = None] s f
  show ?thesis by (simp add: card_source_def)
qed



section \<open>Tree extraction\<close>

text \<open>
  C1 asks that a skipped marker node keeps its descendants in the snapshot. In
  \<open>fiberToComponent\<close> the test \<open>shouldSkipFiber\<close> is followed by \<open>return null\<close>, before the
  children are visited: the strict-mode wrapper (11) yields nothing, \<open>getComponentTree\<close>
  returns the empty forest, and \<open>App\<close> (12), which the walk would materialise when started
  on it, is lost.
\<close>

theorem strict_mode_subtree_lost:
  "fiberToComponent (Suc fuel) rnd strict_graph (Some 11) depth calls = Returns (None, calls)
   \<and> getComponentTree (Suc (Suc (Suc fuel))) rnd strict_graph (sample_window 12) = Returns []
   \<and> fiberToComponent (Suc (Suc fuel)) rnd strict_graph (Some 12) depth calls
       = Returns (Some (ReactComponent (''App__0_'' @ rnd calls) ''App'' Function None [] None []
                          [] (Some 12) None), Suc calls)"
proof -
  have 1: "fiberToComponent (Suc fuel) rnd strict_graph (Some 11) depth calls = Returns (None, calls)" for fuel depth calls
    by (rule skipped_fiber_prunes[where f = "fiber_of (marker_type ''Symbol(react.strict_mode)'') (Some 10) (Some 12) None"])
       (simp_all add: strict_graph_def strict_wrapper_skipped)
  have r: "find_root (Suc (Suc (Suc fuel))) strict_graph 12 = Returns 10"
    by (simp add: strict_graph_def fiber_of_def)
  have w: "getReactRenderer (sample_window 12) = Some \<lparr>getCurrentFiber = Some (Some 12)\<rparr>"
    by (simp add: sample_window_def getReactRenderer_def getReactDevToolsHook_def)
  have c: "fibers strict_graph 10 = Readable (fiber_of TNull None (Some 11) None)"
    by (simp add: strict_graph_def)
  have 2: "getComponentTree (Suc (Suc (Suc fuel))) rnd strict_graph (sample_window 12) = Returns []"
    unfolding getComponentTree_def
    by (simp add: w r c 1 fiber_of_def del: fiberToComponent.simps find_root.simps)
  have 3: "fiberToComponent (Suc (Suc fuel)) rnd strict_graph (Some 12) depth calls
       = Returns (Some (ReactComponent (''App__0_'' @ rnd calls) ''App'' Function None [] None []
                          [] (Some 12) None), Suc calls)"
    by (simp add: strict_graph_def fiber_of_def component_fn_def shouldSkipFiber_def
          extractHooks_def generateComponentId_def getComponentName_def getComponentType_def
          getComponentSource_def or_str_def truthy_str_def type_name_def type_displayName_def
          show_int_def show_nat.simps)
  from 1 2 3 show ?thesis by blast
qed

text \<open>
  C2 asks that the hook decoder returns, with a bounded number of records, on every chain.
  The loop of \<open>extractHooks\<close> has no bound: on a chain whose node points to itself it is
  out of fuel for every amount of fuel, and so is the walk of the fiber that owns it.
\<close>

theorem hook_cycle_never_returns:
  "extractHooks fuel hook_cycle_graph counter_fiber = OutOfFuel
   \<and> fiberToComponent fuel rnd hook_cycle_graph (Some 10) depth calls = OutOfFuel"
proof -
  have e: "extractHooks fuel hook_cycle_graph counter_fiber = OutOfFuel" for fuel
    using hook_loop_cycle
    by (simp add: extractHooks_def counter_fiber_def hook_cycle_graph_def)
  have s: "\<not> shouldSkipFiber counter_fiber"
    by (simp add: shouldSkipFiber_def counter_fiber_def fiber_of_def component_fn_def)
  have f: "fibers hook_cycle_graph 10 = Readable counter_fiber"
    by (simp add: hook_cycle_graph_def)
  have "fiberToComponent fuel rnd hook_cycle_graph (Some 10) depth calls = OutOfFuel"
    by (cases fuel) (simp_all add: e s f)
  with e show ?thesis by blast
qed

text \<open>
  C3 asks that the walk returns on every graph, cutting the recursion at a depth bound.
  \<open>fiberToComponent\<close> passes \<open>depth\<close> along and never compares it: with a cycle through
  \<open>sibling\<close> or through \<open>child\<close> the walk is out of fuel for every amount of fuel.
\<close>

theorem cyclic_graph_never_returns:
  "fiberToComponent fuel rnd sibling_cycle_graph (Some 10) depth calls = OutOfFuel
   \<and> fiberToComponent fuel rnd child_cycle_graph (Some 10) depth calls = OutOfFuel"
proof -
  have f: "fibers sibling_cycle_graph 10
             = Readable (fiber_of (component_fn ''App'') None (Some 12) None)"
    by (simp add: sibling_cycle_graph_def)
  have c: "child (fiber_of (component_fn ''App'') None (Some 12) None) = Some 12"
    by (simp add: fiber_of_def)
  have "fiberToComponent fuel rnd sibling_cycle_graph (Some 10) depth calls = OutOfFuel"
    by (cases fuel)
       (simp_all add: f c component_fn_not_skipped extractHooks_no_state sibling_cycle_loop)
  with child_cycle_both show ?thesis by blast
qed




text \<open>
  C9. Two extractions of the same graph that differ only in what \<open>Math.random\<close> returns
  end the same way (both return, or neither does), and the forests they return are
  equal once the ids are blanked: same names, types, props, state, hooks and children
  in the same order at every position.
\<close>

theorem extraction_deterministic_modulo_ids:
  "map_outcome (map forget_ids) (getComponentTree fuel rnd g w)
     = map_outcome (map forget_ids) (getComponentTree fuel rnd' g w)"
proof -
  have conv: "map_outcome snapshot_of (fiberToComponent fuel rnd g x 0 0)
     = map_outcome snapshot_of (fiberToComponent fuel rnd' g x 0 0)" for x
    using walk_deterministic by blast
  have top: "map_outcome (map forget_ids)
        (case fiberToComponent fuel rnd g (Some c) 0 0 of
           OutOfFuel \<Rightarrow> OutOfFuel | Throws \<Rightarrow> Returns []
         | Returns (None, calls) \<Rightarrow> Returns []
         | Returns (Some component, calls) \<Rightarrow> Returns [component])
      = map_outcome (map forget_ids)
        (case fiberToComponent fuel rnd' g (Some c) 0 0 of
           OutOfFuel \<Rightarrow> OutOfFuel | Throws \<Rightarrow> Returns []
         | Returns (None, calls) \<Rightarrow> Returns []
         | Returns (Some component, calls) \<Rightarrow> Returns [component])" for c
  proof -
    have flip: "(Some y = map_option forget_ids z) = (\<exists>x. z = Some x \<and> forget_ids x = y)"
      for y z by (cases z) auto
    from map_outcome_eq_cases[OF conv[of "Some c"]] show ?thesis
      by (auto simp: snapshot_of_def flip split: option.splits)
  qed
  show ?thesis
    unfolding getComponentTree_def
    by (simp add: top split: option.splits outcome.splits heap_cell.splits
          del: fiberToComponent.simps)
qed


end
